theory Spec2Isabelle
  imports Main
begin

section \<open>Go values, failures and the string library\<close>

text \<open>
  A Go \<open>string\<close> is a sequence of bytes and is modelled as \<^typ>\<open>string\<close>.  A call
  either returns, or panics (there is no \<open>recover\<close> in the package), or returns a
  Go \<open>error\<close> value; the two ways of failing are kept apart.
\<close>

datatype failure =
    Panic string  \<comment> \<open>a run-time panic, with its message\<close>
  | Error string  \<comment> \<open>an \<open>error\<close> value handed back to the caller\<close>

text \<open>
  The dynamic values behind \<open>interface{}\<close>.  \<open>IOther t\<close> stands for a value of any
  other dynamic type, \<open>t\<close> being the name that \<open>%T\<close> prints.  \<open>int\<close> has 64 bits.
\<close>

datatype iface = IString string | IInt int | IInt64 int | IOther string

definition bnd :: "failure + 'a \<Rightarrow> ('a \<Rightarrow> failure + 'b) \<Rightarrow> failure + 'b" where
  "bnd m f = (case m of Inl e \<Rightarrow> Inl e | Inr x \<Rightarrow> f x)"

definition CRLF :: string where
  "CRLF = [CHR 0x0D, CHR 0x0A]"

subsection \<open>\<open>strings.Index\<close>, \<open>strings.Contains\<close>, \<open>strings.Join\<close>, trimming\<close>

fun strings_Index :: "string \<Rightarrow> string \<Rightarrow> int" where
  "strings_Index [] p = (if p = [] then 0 else - 1)"
| "strings_Index (c # cs) p =
     (if take (length p) (c # cs) = p then 0
      else (let i = strings_Index cs p in if i < 0 then - 1 else i + 1))"

definition strings_Contains :: "string \<Rightarrow> string \<Rightarrow> bool" where
  "strings_Contains s sub = (0 \<le> strings_Index s sub)"

fun strings_Join :: "string list \<Rightarrow> string \<Rightarrow> string" where
  "strings_Join [] sep = []"
| "strings_Join [x] sep = x"
| "strings_Join (x # y # zs) sep = x @ sep @ strings_Join (y # zs) sep"

text \<open>Trimming with a cutset of ASCII characters works byte by byte.\<close>

definition strings_TrimLeft :: "string \<Rightarrow> string \<Rightarrow> string" where
  "strings_TrimLeft s cutset = dropWhile (\<lambda>c. c \<in> set cutset) s"

definition strings_TrimRight :: "string \<Rightarrow> string \<Rightarrow> string" where
  "strings_TrimRight s cutset = rev (dropWhile (\<lambda>c. c \<in> set cutset) (rev s))"

definition strings_Trim :: "string \<Rightarrow> string \<Rightarrow> string" where
  "strings_Trim s cutset = strings_TrimRight (strings_TrimLeft s cutset) cutset"

subsection \<open>Decimal rendering (\<open>fmt.Sprint\<close>, \<open>strconv.Itoa\<close>) and \<open>strconv.Atoi\<close>\<close>

definition digit_char :: "nat \<Rightarrow> char" where
  "digit_char d = ''0123456789'' ! d"

fun digits :: "nat \<Rightarrow> string" where
  "digits n = (if n < 10 then [digit_char n] else digits (n div 10) @ [digit_char (n mod 10)])"

declare digits.simps [simp del]

definition Itoa :: "int \<Rightarrow> string" where
  "Itoa i = (if i < 0 then CHR ''-'' # digits (nat (- i)) else digits (nat i))"

definition isDigit :: "char \<Rightarrow> bool" where
  "isDigit c = (48 \<le> (of_char c :: nat) \<and> (of_char c :: nat) \<le> 57)"

definition digit_val :: "char \<Rightarrow> nat" where
  "digit_val c = of_char c - 48"

definition digits_val :: "string \<Rightarrow> nat" where
  "digits_val ds = foldl (\<lambda>n c. n * 10 + digit_val c) 0 ds"

definition in_int_range :: "int \<Rightarrow> bool" where
  "in_int_range v = (- 9223372036854775808 \<le> v \<and> v \<le> 9223372036854775807)"

text \<open>
  \<open>strconv.Atoi\<close> accepts an optional sign followed by at least one decimal digit, and
  reports a range error when the value does not fit \<open>int\<close>.  \<open>None\<close> is \<open>err != nil\<close>.
\<close>

definition Atoi :: "string \<Rightarrow> int option" where
  "Atoi s =
     (let neg = (s \<noteq> [] \<and> hd s = CHR ''-'');
          ds = (if s \<noteq> [] \<and> (hd s = CHR ''-'' \<or> hd s = CHR ''+'') then tl s else s)
      in if ds = [] \<or> \<not> list_all isDigit ds then None
         else (let n = int (digits_val ds); v = (if neg then - n else n)
               in if in_int_range v then Some v else None))"

section \<open>Command formatter\<close>

text \<open>\<open>fmt.Sprint\<close> of a string is the string, of an integer its decimal form.\<close>

fun Sprint :: "iface \<Rightarrow> string" where
  "Sprint (IString v) = v"
| "Sprint (IInt v) = Itoa v"
| "Sprint (IInt64 v) = Itoa v"
| "Sprint (IOther t) = t"

fun quote :: "iface \<Rightarrow> failure + string" where
  "quote (IString v) = (if v = ''?'' then Inr v else Inr ([CHR 0x22] @ v @ [CHR 0x22]))"
| "quote (IInt v) = Inr (Itoa v)"
| "quote (IInt64 v) = Inr (Itoa v)"
| "quote (IOther t) = Inl (Panic (''Unsupported argument type: '' @ t))"

text \<open>The loop of \<open>quotes\<close> fills \<open>ret\<close> from left to right and stops at the first panic.\<close>

fun quotes_loop :: "iface list \<Rightarrow> failure + string list" where
  "quotes_loop [] = Inr []"
| "quotes_loop (arg # args) =
     bnd (quote arg) (\<lambda>q. bnd (quotes_loop args) (\<lambda>ret. Inr (q # ret)))"

definition quotes :: "iface list \<Rightarrow> failure + string" where
  "quotes args = bnd (quotes_loop args) (\<lambda>ret. Inr (strings_Join ret '',''))"

definition formatCommand :: "string \<Rightarrow> iface list \<Rightarrow> failure + string" where
  "formatCommand cmd args =
     (let line = ''AT'' @ cmd
      in bnd (if length args > 0 then bnd (quotes args) (\<lambda>q. Inr (line @ ''='' @ q))
              else Inr line)
           (\<lambda>line. Inr (line @ CRLF)))"

section \<open>Unquoting\<close>

definition startsWith :: "string \<Rightarrow> string \<Rightarrow> bool" where
  "startsWith s p = (strings_Index s p = 0)"

definition unquote :: "string \<Rightarrow> iface" where
  "unquote s =
     (if startsWith s [CHR 0x22] then IString (strings_Trim s [CHR 0x22])
      else (case Atoi s of Some i \<Rightarrow> IInt i | None \<Rightarrow> IString s))"


subsection \<open>The parameter list: \<open>RegexQuote.FindAllString\<close>\<close>

text \<open>
  \<open>RegexQuote\<close> is \<^verbatim>\<open>"[^"]*"|[^,]*\<close>.  It matches at every position, so the
  leftmost match always starts where the search starts; the first alternative is
  preferred, and it applies when the text starts with a double quote that is closed
  later.  \<open>RegexQuote_match s\<close> is the length of the match at the start of \<open>s\<close>.
\<close>

definition RegexQuote_match :: "string \<Rightarrow> nat" where
  "RegexQuote_match s =
     (case s of
        [] \<Rightarrow> 0
      | c # cs \<Rightarrow>
          if c = CHR 0x22 \<and> CHR 0x22 \<in> set cs
          then 2 + length (takeWhile (\<lambda>x. x \<noteq> CHR 0x22) cs)
          else length (takeWhile (\<lambda>x. x \<noteq> CHR '','') s))"

text \<open>
  \<open>FindAllString(s, -1)\<close>: successive matches; an empty match that abuts the preceding
  match is dropped, and after an empty match the search moves on by one character.
  \<open>abut\<close> says that the preceding match ended at the current position.
\<close>

fun FindAllString :: "bool \<Rightarrow> string \<Rightarrow> string list" where
  "FindAllString abut [] = (if abut then [] else [[]])"
| "FindAllString abut (c # cs) =
     (if RegexQuote_match (c # cs) = 0
      then (if abut then [] else [[]]) @ FindAllString False cs
      else take (RegexQuote_match (c # cs)) (c # cs)
           # FindAllString True (drop (RegexQuote_match (c # cs)) (c # cs)))"

definition unquotes :: "string \<Rightarrow> iface list" where
  "unquotes s = map unquote (FindAllString False s)"

definition stringsUnquotes :: "string \<Rightarrow> string list" where
  "stringsUnquotes s = map Sprint (unquotes s)"

subsection \<open>\<open>strings.SplitN\<close>, prefixes and suffixes, \<open>strings.TrimSpace\<close>\<close>

text \<open>\<open>cut s sep\<close> splits \<open>s\<close> around the first occurrence of \<open>sep\<close>.\<close>

fun cut :: "string \<Rightarrow> string \<Rightarrow> (string \<times> string) option" where
  "cut [] sep = (if sep = [] then Some ([], []) else None)"
| "cut (c # cs) sep =
     (if take (length sep) (c # cs) = sep then Some ([], drop (length sep) (c # cs))
      else map_option (\<lambda>(a, b). (c # a, b)) (cut cs sep))"

text \<open>\<open>strings.SplitN(s, sep, n)\<close> for a non-empty separator and \<open>n \<ge> 0\<close>.\<close>

fun strings_SplitN :: "string \<Rightarrow> string \<Rightarrow> nat \<Rightarrow> string list" where
  "strings_SplitN s sep 0 = []"
| "strings_SplitN s sep (Suc 0) = [s]"
| "strings_SplitN s sep (Suc (Suc n)) =
     (case cut s sep of
        None \<Rightarrow> [s]
      | Some (a, b) \<Rightarrow> a # strings_SplitN b sep (Suc n))"

definition strings_HasPrefix :: "string \<Rightarrow> string \<Rightarrow> bool" where
  "strings_HasPrefix s p = (take (length p) s = p)"

definition strings_TrimPrefix :: "string \<Rightarrow> string \<Rightarrow> string" where
  "strings_TrimPrefix s p = (if strings_HasPrefix s p then drop (length p) s else s)"

definition strings_HasSuffix :: "string \<Rightarrow> string \<Rightarrow> bool" where
  "strings_HasSuffix s p = (length p \<le> length s \<and> drop (length s - length p) s = p)"

definition strings_TrimSuffix :: "string \<Rightarrow> string \<Rightarrow> string" where
  "strings_TrimSuffix s p = (if strings_HasSuffix s p then take (length s - length p) s else s)"

text \<open>
  \<open>strings.TrimSpace\<close> removes the leading and trailing runes for which
  \<open>unicode.IsSpace\<close> holds.  \<open>whiteSpace\<close> lists their UTF-8 encodings: the six ASCII
  ones, then U+0085, U+00A0, U+1680, U+2000 to U+200A, U+2028, U+2029, U+202F, U+205F
  and U+3000.  No encoding is a prefix or a suffix of another rune's encoding, so
  removing these byte sequences is removing these runes.
\<close>

definition whiteSpace :: "string list" where
  "whiteSpace =
     [[CHR 0x09], [CHR 0x0A], [CHR 0x0B], [CHR 0x0C], [CHR 0x0D], [CHR 0x20],
      [CHR 0xC2, CHR 0x85], [CHR 0xC2, CHR 0xA0], [CHR 0xE1, CHR 0x9A, CHR 0x80],
      [CHR 0xE2, CHR 0x80, CHR 0x80], [CHR 0xE2, CHR 0x80, CHR 0x81],
      [CHR 0xE2, CHR 0x80, CHR 0x82], [CHR 0xE2, CHR 0x80, CHR 0x83],
      [CHR 0xE2, CHR 0x80, CHR 0x84], [CHR 0xE2, CHR 0x80, CHR 0x85],
      [CHR 0xE2, CHR 0x80, CHR 0x86], [CHR 0xE2, CHR 0x80, CHR 0x87],
      [CHR 0xE2, CHR 0x80, CHR 0x88], [CHR 0xE2, CHR 0x80, CHR 0x89],
      [CHR 0xE2, CHR 0x80, CHR 0x8A], [CHR 0xE2, CHR 0x80, CHR 0xA8],
      [CHR 0xE2, CHR 0x80, CHR 0xA9], [CHR 0xE2, CHR 0x80, CHR 0xAF],
      [CHR 0xE2, CHR 0x81, CHR 0x9F], [CHR 0xE3, CHR 0x80, CHR 0x80]]"

definition spaceWidth :: "string list \<Rightarrow> string \<Rightarrow> nat" where
  "spaceWidth ws s =
     (case find (\<lambda>u. take (length u) s = u) ws of Some u \<Rightarrow> length u | None \<Rightarrow> 0)"

fun trimFront :: "string list \<Rightarrow> string \<Rightarrow> string" where
  "trimFront ws [] = []"
| "trimFront ws (c # cs) =
     (if spaceWidth ws (c # cs) = 0 then c # cs
      else trimFront ws (drop (spaceWidth ws (c # cs)) (c # cs)))"

definition strings_TrimSpace :: "string \<Rightarrow> string" where
  "strings_TrimSpace s = rev (trimFront (map rev whiteSpace) (rev (trimFront whiteSpace s)))"


section \<open>Device time\<close>

text \<open>
  \<open>time.Time\<close> is kept as its calendar fields in UTC.  The zero value \<open>Time{}\<close> is
  January 1 of year 1, 00:00:00 UTC.
\<close>

record Time =
  year :: int
  month :: nat
  day :: nat
  hour :: nat
  minute :: nat
  second :: nat

definition zeroTime :: Time where
  "zeroTime = \<lparr>year = 1, month = 1, day = 1, hour = 0, minute = 0, second = 0\<rparr>"

definition TimeFormat :: string where
  "TimeFormat = ''06/01/02,15:04:05''"

text \<open>
  \<open>time.Parse\<close> belongs to the Go standard library, not to this package; it is a
  parameter \<open>tp\<close> of the model, taking the layout and the value.  \<open>None\<close> stands for a
  non-nil error, in which case the library returns \<open>Time{}\<close> as the time, and that is
  the value \<open>parseTime\<close> keeps, since it drops the error.  The slice expression
  \<open>t[:len(t)-3]\<close> panics when \<open>t\<close> has fewer than three bytes.
\<close>

definition parseTime :: "(string \<Rightarrow> string \<Rightarrow> Time option) \<Rightarrow> string \<Rightarrow> failure + Time" where
  "parseTime tp t =
     (if length t < 3 then Inl (Panic ''slice bounds out of range'')
      else Inr (case tp TimeFormat (take (length t - 3) t) of
                  Some ret \<Rightarrow> ret
                | None \<Rightarrow> zeroTime))"

text \<open>
  A reference instance of the parameter for concrete runs: the strict reading of the
  layout, \<open>YY/MM/DD,HH:MM:SS\<close> with two digits in every field, years from 69 on in the
  1900s, and the fields within their calendar ranges.
\<close>

definition two :: "char \<Rightarrow> char \<Rightarrow> nat" where
  "two a b = digit_val a * 10 + digit_val b"

definition daysIn :: "nat \<Rightarrow> int \<Rightarrow> nat" where
  "daysIn m y =
     (if m = 2 then (if y mod 4 = 0 \<and> (y mod 100 \<noteq> 0 \<or> y mod 400 = 0) then 29 else 28)
      else if m \<in> {4, 6, 9, 11} then 30 else 31)"

fun deviceTime :: "string \<Rightarrow> string \<Rightarrow> Time option" where
  "deviceTime layout [y1, y2, s1, m1, m2, s2, d1, d2, s3, h1, h2, s4, n1, n2, s5, c1, c2] =
     (if layout = TimeFormat \<and> list_all isDigit [y1, y2, m1, m2, d1, d2, h1, h2, n1, n2, c1, c2]
         \<and> [s1, s2, s3, s4, s5] = ''//,::''
      then (let y = (if two y1 y2 \<ge> 69 then 1900 else 2000) + int (two y1 y2)
            in if 1 \<le> two m1 m2 \<and> two m1 m2 \<le> 12 \<and> 1 \<le> two d1 d2
                  \<and> two d1 d2 \<le> daysIn (two m1 m2) y
                  \<and> two h1 h2 < 24 \<and> two n1 n2 < 60 \<and> two c1 c2 < 60
               then Some \<lparr>year = y, month = two m1 m2, day = two d1 d2, hour = two h1 h2,
                          minute = two n1 n2, second = two c1 c2\<rparr>
               else None)
      else None)"
| "deviceTime layout v = None"

section \<open>Packets\<close>

text \<open>
  Modelled from the spec: the file declaring the packet types is not part of the
  sources at hand.  The variants are those of the data model of the specification, with
  the field names and types that \<open>parsePacket\<close> and \<open>ListMessages\<close> use.
\<close>

record Message =
  Index :: int
  Status :: string
  Telephone :: string
  Timestamp :: Time
  Body :: string
  Last :: bool

datatype Packet =
    OK
  | ERROR
  | MessagePacket Message
  | MessageNotification string int
  | ServiceStatus string
  | NetworkStatus string
  | SMSCAddress "iface list"
  | StorageAreas "string list" "string list" "string list"
  | StorageInfo int int int int int int
  | UnknownPacket string "iface list"

text \<open>The composite literal \<open>Message{}\<close>: every field has its zero value.\<close>

definition Message0 :: Message where
  "Message0 = \<lparr>Index = 0, Status = [], Telephone = [], Timestamp = zeroTime, Body = [],
               Last = False\<rparr>"

section \<open>Packet parser\<close>

definition isFinalStatus :: "string \<Rightarrow> bool" where
  "isFinalStatus status =
     (status = ''OK'' \<or> status = ''ERROR'' \<or> strings_Contains status ''+CMS ERROR''
      \<or> strings_Contains status ''+CME ERROR'')"

text \<open>Indexing and type assertions panic when they fail.\<close>

definition index :: "'a list \<Rightarrow> nat \<Rightarrow> failure + 'a" where
  "index xs i = (if i < length xs then Inr (xs ! i) else Inl (Panic ''index out of range''))"

fun asString :: "iface \<Rightarrow> failure + string" where
  "asString (IString v) = Inr v"
| "asString v = Inl (Panic ''interface conversion: interface {} is not string'')"

fun asInt :: "iface \<Rightarrow> failure + int" where
  "asInt (IInt v) = Inr v"
| "asInt v = Inl (Panic ''interface conversion: interface {} is not int'')"

fun isInt :: "iface \<Rightarrow> bool" where
  "isInt (IInt v) = True"
| "isInt v = False"

text \<open>The loop of the \<open>+CPMS\<close> set response keeps the integer arguments.\<close>

fun intArgs :: "iface list \<Rightarrow> int list" where
  "intArgs [] = []"
| "intArgs (IInt i # args) = i # intArgs args"
| "intArgs (arg # args) = intArgs args"

text \<open>
  \<open>parsePacket\<close>; \<open>None\<close> is the \<open>nil\<close> packet.  The fields of a composite literal are
  evaluated from left to right.
\<close>

definition parsePacket ::
  "(string \<Rightarrow> string \<Rightarrow> Time option) \<Rightarrow> string \<Rightarrow> string \<Rightarrow> string \<Rightarrow> failure + Packet option"
where
  "parsePacket tp status header body =
     (if header = [] \<and> isFinalStatus status
      then (if status = ''OK'' then Inr (Some OK) else Inr (Some ERROR))
      else (case strings_SplitN header '':'' 2 of
        [name, rest] \<Rightarrow>
          (let uargs = strings_TrimSpace rest; args = unquotes uargs in
           if name = ''+ZUSIMR'' then Inr None
           else if name = ''+ZPASR'' then
             bnd (bnd (index args 0) asString) (\<lambda>a. Inr (Some (ServiceStatus a)))
           else if name = ''+ZDONR'' then
             bnd (bnd (index args 0) asString) (\<lambda>a. Inr (Some (NetworkStatus a)))
           else if name = ''+CMTI'' then
             bnd (bnd (index args 0) asString) (\<lambda>a.
             bnd (bnd (index args 1) asInt) (\<lambda>i. Inr (Some (MessageNotification a i))))
           else if name = ''+CSCA'' then Inr (Some (SMSCAddress args))
           else if name = ''+CMGR'' then
             bnd (index args 1) (\<lambda>a1.
               if a1 = IString [] then Inr (Some (MessagePacket (Message0\<lparr>Body := body\<rparr>)))
               else
                 bnd (bnd (index args 0) asString) (\<lambda>st.
                 bnd (asString a1) (\<lambda>tel.
                 bnd (bnd (index args 3) asString) (\<lambda>ts.
                 bnd (parseTime tp ts) (\<lambda>t.
                   Inr (Some (MessagePacket (Message0\<lparr>Status := st, Telephone := tel,
                                                      Timestamp := t, Body := body\<rparr>))))))))
           else if name = ''+CMGL'' then
             bnd (index args 2) (\<lambda>a2.
               if isInt a2 then
                 bnd (bnd (index args 0) asInt) (\<lambda>i.
                 bnd (bnd (index args 1) asString) (\<lambda>st.
                 bnd (asInt a2) (\<lambda>tel.
                   Inr (Some (MessagePacket (Message0\<lparr>Index := i, Status := st,
                          Telephone := Itoa tel, Body := body, Last := (status \<noteq> [])\<rparr>))))))
               else
                 bnd (bnd (index args 0) asInt) (\<lambda>i.
                 bnd (bnd (index args 1) asString) (\<lambda>st.
                 bnd (asString a2) (\<lambda>tel.
                 bnd (bnd (index args 4) asString) (\<lambda>ts.
                 bnd (parseTime tp ts) (\<lambda>t.
                   Inr (Some (MessagePacket (Message0\<lparr>Index := i, Status := st,
                          Telephone := tel, Timestamp := t, Body := body,
                          Last := (status \<noteq> [])\<rparr>)))))))))
           else if name = ''+CPMS'' then
             (if strings_HasPrefix uargs ''('' then
                (let s = strings_TrimSuffix (strings_TrimPrefix uargs ''('') '')'';
                     areas = strings_SplitN s ''),('' 3 in
                 bnd (index areas 0) (\<lambda>a0.
                 bnd (index areas 1) (\<lambda>a1.
                 bnd (index areas 2) (\<lambda>a2.
                   Inr (Some (StorageAreas (stringsUnquotes a0) (stringsUnquotes a1)
                                           (stringsUnquotes a2)))))))
              else
                (case intArgs args of
                   [i0, i1, i2, i3, i4, i5] \<Rightarrow> Inr (Some (StorageInfo i0 i1 i2 i3 i4 i5))
                 | [i0, i1, i2, i3] \<Rightarrow> Inr (Some (StorageInfo i0 i1 i2 i3 0 0))
                 | _ \<Rightarrow> Inr (Some (UnknownPacket name args))))
           else if name = [] then
             (if status = ''OK'' then Inr (Some OK) else Inr (Some ERROR))
           else Inr (Some (UnknownPacket name args)))
      | _ \<Rightarrow> Inr (Some (UnknownPacket header []))))"


section \<open>Protocol engine\<close>

text \<open>
  The variables that \<open>listen\<close> keeps across iterations.  The field \<open>last'\<close> is the
  variable \<open>last\<close> of the source.
\<close>

record listen_state =
  echo :: string
  last' :: string
  header :: string
  body :: string

definition listen_init :: listen_state where
  "listen_init = \<lparr>echo = [], last' = [], header = [], body = []\<rparr>"

text \<open>
  What one iteration sends: on the channel \<open>rx\<close>, on the channel \<open>OOB\<close>, and to the
  port.
\<close>

record sent =
  rx :: "Packet option list"
  OOB :: "Packet list"
  port :: "string list"

definition nothing :: sent where
  "nothing = \<lparr>rx = [], OOB = [], port = []\<rparr>"

definition isUpper :: "char \<Rightarrow> bool" where
  "isUpper c = (65 \<le> (of_char c :: nat) \<and> (of_char c :: nat) \<le> 90)"

text \<open>
  \<open>reQuestion\<close> is \<^verbatim>\<open>AT(\+[A-Z]+)\<close>; the result is the submatch \<open>m[1]\<close> of the
  leftmost match, or \<open>None\<close> when \<open>len(m) = 0\<close>.
\<close>

fun reQuestion_FindStringSubmatch :: "string \<Rightarrow> string option" where
  "reQuestion_FindStringSubmatch [] = None"
| "reQuestion_FindStringSubmatch (c # cs) =
     (if take 3 (c # cs) = ''AT+'' \<and> takeWhile isUpper (drop 3 (c # cs)) \<noteq> []
      then Some (CHR ''+'' # takeWhile isUpper (drop 3 (c # cs)))
      else reQuestion_FindStringSubmatch cs)"

text \<open>
  The case \<open>line := <-in\<close>.  In the last branch the packet is parsed and, when it is
  not \<open>nil\<close>, logged; the statement that would send it on \<open>OOB\<close> is commented out in
  the source, so nothing is sent.
\<close>

definition on_line ::
  "(string \<Rightarrow> string \<Rightarrow> Time option) \<Rightarrow> listen_state \<Rightarrow> string \<Rightarrow> failure + listen_state \<times> sent"
where
  "on_line tp st line =
     (if line = echo st then Inr (st, nothing)
      else if last' st \<noteq> [] \<and> startsWith line (last' st) then
        (if header st \<noteq> [] then
           bnd (parsePacket tp [] (header st) (body st)) (\<lambda>packet.
             Inr (st\<lparr>header := line, body := []\<rparr>, nothing\<lparr>rx := [packet]\<rparr>))
         else Inr (st\<lparr>header := line, body := []\<rparr>, nothing))
      else if isFinalStatus line then
        bnd (parsePacket tp line (header st) (body st)) (\<lambda>packet.
          Inr (st\<lparr>header := [], body := []\<rparr>, nothing\<lparr>rx := [packet]\<rparr>))
      else if header st \<noteq> [] then Inr (st\<lparr>body := body st @ line\<rparr>, nothing)
      else if line = ''> '' then Inr (st, nothing)
      else bnd (parsePacket tp ''OK'' line []) (\<lambda>p. Inr (st, nothing)))"

text \<open>The case \<open>line := <-self.tx\<close>.\<close>

definition on_tx :: "listen_state \<Rightarrow> string \<Rightarrow> listen_state \<times> sent" where
  "on_tx st line =
     (let st1 = (case reQuestion_FindStringSubmatch line of
                   Some m1 \<Rightarrow> st\<lparr>last' := m1\<rparr>
                 | None \<Rightarrow> st)
      in (st1\<lparr>echo := strings_TrimRight line CRLF\<rparr>, nothing\<lparr>port := [line]\<rparr>))"

datatype event = Line string | Tx string

definition step ::
  "(string \<Rightarrow> string \<Rightarrow> Time option) \<Rightarrow> listen_state \<Rightarrow> event \<Rightarrow> failure + listen_state \<times> sent"
where
  "step tp st ev = (case ev of Line line \<Rightarrow> on_line tp st line | Tx line \<Rightarrow> Inr (on_tx st line))"

definition append_sent :: "sent \<Rightarrow> sent \<Rightarrow> sent" where
  "append_sent a b = \<lparr>rx = rx a @ rx b, OOB = OOB a @ OOB b, port = port a @ port b\<rparr>"

text \<open>
  The loop of \<open>listen\<close> over the events in the order in which the \<open>select\<close> takes
  them; a panic in an iteration ends the run.
\<close>

fun listen ::
  "(string \<Rightarrow> string \<Rightarrow> Time option) \<Rightarrow> listen_state \<Rightarrow> event list \<Rightarrow> failure + listen_state \<times> sent"
where
  "listen tp st [] = Inr (st, nothing)"
| "listen tp st (ev # evs) =
     bnd (step tp st ev) (\<lambda>(st1, out1).
     bnd (listen tp st1 evs) (\<lambda>(st2, out2). Inr (st2, append_sent out1 out2)))"

section \<open>Public API: listing messages\<close>

text \<open>
  A call that waits on \<open>rx\<close> either returns or stays blocked.  The channel is
  unbuffered with one sender and one receiver, so the caller receives the packets in
  the order in which the engine sends them; the caller side is a function of that
  stream.
\<close>

datatype 'a outcome = Blocked | Returned 'a

text \<open>The \<open>for\<close> loop of \<open>ListMessages\<close>, entered with the packet in hand.\<close>

fun ListMessages_loop ::
  "Message list \<Rightarrow> Packet option \<Rightarrow> Packet option list \<Rightarrow> (failure + Message list) outcome"
where
  "ListMessages_loop res packet stream =
     (case packet of
        Some (MessagePacket msg) \<Rightarrow>
          if Last msg then Returned (Inr (res @ [msg]))
          else (case stream of
                  [] \<Rightarrow> Blocked
                | p # stream' \<Rightarrow> ListMessages_loop (res @ [msg]) p stream')
      | _ \<Rightarrow> Returned (Inl (Error ''Unexpected error'')))"

text \<open>
  \<open>ListMessages\<close> after \<open>send\<close> has put the command on \<open>tx\<close>: \<open>send\<close> takes the first
  packet and turns \<open>ERROR\<close> into an error.
\<close>

definition ListMessages_rx :: "Packet option list \<Rightarrow> (failure + Message list) outcome" where
  "ListMessages_rx stream =
     (case stream of
        [] \<Rightarrow> Blocked
      | packet # stream' \<Rightarrow>
          if packet = Some ERROR then Returned (Inl (Error ''Response was ERROR''))
          else if packet = Some OK then Returned (Inr [])
          else ListMessages_loop [] packet stream')"

text \<open>
  \<open>ListMessages(filter)\<close> against an engine in state \<open>st\<close> and a device that answers
  the command with the lines \<open>lines\<close>; \<open>flt\<close> is the parameter \<open>filter\<close>.
\<close>

definition ListMessages ::
  "(string \<Rightarrow> string \<Rightarrow> Time option) \<Rightarrow> listen_state \<Rightarrow> string \<Rightarrow> string list
    \<Rightarrow> (failure + Message list) outcome"
where
  "ListMessages tp st flt lines =
     (case formatCommand ''+CMGL'' [IString flt] of
        Inl e \<Rightarrow> Returned (Inl e)
      | Inr cmd \<Rightarrow>
          (case listen tp st (Tx cmd # map Line lines) of
             Inl e \<Rightarrow> Returned (Inl e)
           | Inr (st', out) \<Rightarrow> ListMessages_rx (rx out)))"

section \<open>Character codec\<close>

text \<open>
  The codec loops range over the runes of a string and append strings; a string is
  given here by its sequence of runes, a rune by its code point.
\<close>

type_synonym rune = nat

subsection \<open>GSM 03.38\<close>

definition gsm0338Encode :: "(rune \<times> rune list) list" where
  "gsm0338Encode =
     [
      (0x40, [0x00]), (0xA3, [0x01]), (0x24, [0x02]), (0xA5, [0x03]),
      (0xE8, [0x04]), (0xE9, [0x05]), (0xF9, [0x06]), (0xEC, [0x07]),
      (0xF2, [0x08]), (0xC7, [0x09]), (0x0D, [0x0A]), (0xD8, [0x0B]),
      (0xF8, [0x0C]), (0x0A, [0x0D]), (0xC5, [0x0E]), (0xE5, [0x0F]),
      (0x394, [0x10]), (0x5F, [0x11]), (0x3A6, [0x12]), (0x393, [0x13]),
      (0x39B, [0x14]), (0x3A9, [0x15]), (0x3A0, [0x16]), (0x3A8, [0x17]),
      (0x3A3, [0x18]), (0x398, [0x19]), (0x39E, [0x1A]), (0xC6, [0x1C]),
      (0xE6, [0x1D]), (0xC9, [0x1F]), (0xA4, [0x24]), (0x25, [0x25]),
      (0xA1, [0x40]), (0xC4, [0x5B]), (0xD6, [0x5C]), (0xD1, [0x5D]),
      (0xDC, [0x5E]), (0xA7, [0x5F]), (0xE4, [0x7B]), (0xF6, [0x7C]),
      (0xF1, [0x7D]), (0xFC, [0x7E]), (0xE0, [0x7F]), (0x20AC, [0x1B, 0x65]),
      (0x5B, [0x1B, 0x3C]), (0x5C, [0x1B, 0x2F]), (0x5D, [0x1B, 0x3E]), (0x5E, [0x1B, 0x5E]),
      (0x7B, [0x1B, 0x28]), (0x7C, [0x1B, 0x40]), (0x7D, [0x1B, 0x29]), (0x7E, [0x1B, 0x3D])]"

definition gsm0338Decode :: "(rune \<times> rune) list" where
  "gsm0338Decode =
     [
      (0x00, 0x40), (0x01, 0xA3), (0x02, 0x24), (0x03, 0xA5), (0x04, 0xE8),
      (0x05, 0xE9), (0x06, 0xF9), (0x07, 0xEC), (0x08, 0xF2), (0x09, 0xC7),
      (0x0A, 0x0D), (0x0B, 0xD8), (0x0C, 0xF8), (0x0D, 0x0A), (0x0E, 0xC5),
      (0x0F, 0xE5), (0x10, 0x394), (0x11, 0x5F), (0x12, 0x3A6), (0x13, 0x393),
      (0x14, 0x39B), (0x15, 0x3A9), (0x16, 0x3A0), (0x17, 0x3A8), (0x18, 0x3A3),
      (0x19, 0x398), (0x1A, 0x39E), (0x1C, 0xC6), (0x1D, 0xE6), (0x1F, 0xC9),
      (0x24, 0xA4), (0x25, 0x25), (0x40, 0xA1), (0x5B, 0xC4), (0x5C, 0xD6),
      (0x5D, 0xD1), (0x5E, 0xDC), (0x5F, 0xA7), (0x7B, 0xE4), (0x7C, 0xF6),
      (0x7D, 0xF1), (0x7E, 0xFC), (0x7F, 0xE0)]"

fun gsmEncode :: "rune list \<Rightarrow> rune list" where
  "gsmEncode [] = []"
| "gsmEncode (c # s) =
     (case map_of gsm0338Encode c of Some d \<Rightarrow> d | None \<Rightarrow> [c]) @ gsmEncode s"

fun gsmDecode :: "rune list \<Rightarrow> rune list" where
  "gsmDecode [] = []"
| "gsmDecode (c # s) =
     (case map_of gsm0338Decode c of Some d \<Rightarrow> [d] | None \<Rightarrow> [c]) @ gsmDecode s"

text \<open>The characters that the encode table maps to an escape sequence.\<close>

definition escaped :: "rune list" where
  "escaped = [0x20AC, 0x5B, 0x5C, 0x5D, 0x5E, 0x7B, 0x7C, 0x7D, 0x7E]"

subsection \<open>UCS2: the first \<open>unicodeEncode\<close>\<close>









subsection \<open>UCS2: the second, table-driven \<open>unicodeEncode\<close>\<close>




text \<open>How a call can fail: with an error handed to the caller, or with a panic.\<close>

fun reported :: "failure + 'a \<Rightarrow> bool" where
  "reported (Inl (Error e)) = True"
| "reported r = False"

fun aborted :: "failure + 'a \<Rightarrow> bool" where
  "aborted (Inl (Panic m)) = True"
| "aborted r = False"

fun supported :: "iface \<Rightarrow> bool" where
  "supported (IOther t) = False"
| "supported v = True"



definition lower_hex :: "char \<Rightarrow> bool" where
  "lower_hex c = (c \<in> set ''0123456789abcdef'')"




section \<open>Decimal numbers\<close>

lemma lt10_cases: "d < 10 \<Longrightarrow> d \<in> {0, 1, 2, 3, 4, 5, 6, 7, 8, 9::nat}"
  by auto

lemma digit_char_isDigit: "d < 10 \<Longrightarrow> isDigit (digit_char d)"
  by (drule lt10_cases) (auto simp: digit_char_def isDigit_def)

lemma digit_val_digit_char: "d < 10 \<Longrightarrow> digit_val (digit_char d) = d"
  by (drule lt10_cases) (auto simp: digit_char_def digit_val_def)

lemma digits_all_digit: "list_all isDigit (digits n)"
proof (induction n rule: digits.induct)
  case (1 n)
  show ?case
  proof (cases "n < 10")
    case True
    then show ?thesis by (subst digits.simps) (simp add: digit_char_isDigit)
  next
    case False
    with 1 show ?thesis by (subst digits.simps) (simp add: digit_char_isDigit)
  qed
qed

lemma digits_nonempty: "digits n \<noteq> []"
  by (subst digits.simps) simp

lemma digits_val_snoc: "digits_val (ds @ [c]) = digits_val ds * 10 + digit_val c"
  by (simp add: digits_val_def)

lemma digits_val_digits: "digits_val (digits n) = n"
proof (induction n rule: digits.induct)
  case (1 n)
  show ?case
  proof (cases "n < 10")
    case True
    then show ?thesis
      by (subst digits.simps) (simp add: digits_val_def digit_val_digit_char)
  next
    case False
    with 1 have "digits_val (digits (n div 10)) = n div 10" by simp
    with False show ?thesis
      by (subst digits.simps) (simp add: digits_val_snoc digit_val_digit_char)
  qed
qed

lemma isDigit_not_sign: "isDigit c \<Longrightarrow> c \<noteq> CHR ''-'' \<and> c \<noteq> CHR ''+'' \<and> c \<noteq> CHR 0x22"
  by (auto simp: isDigit_def)

lemma hd_digits: "isDigit (hd (digits n))"
  using digits_all_digit [of n] digits_nonempty [of n]
  by (cases "digits n") simp_all

lemma Atoi_Itoa: "in_int_range i \<Longrightarrow> Atoi (Itoa i) = Some i"
proof (cases "i < 0")
  case True
  assume r: "in_int_range i"
  from True show ?thesis using r
    by (simp add: Atoi_def Itoa_def digits_nonempty digits_all_digit digits_val_digits)
next
  case False
  assume r: "in_int_range i"
  have h: "hd (digits (nat i)) \<noteq> CHR ''-''" "hd (digits (nat i)) \<noteq> CHR ''+''"
    using isDigit_not_sign [OF hd_digits [of "nat i"]] by simp_all
  from False show ?thesis using r h
    by (simp add: Atoi_def Itoa_def digits_nonempty digits_all_digit digits_val_digits)
qed

lemma digits_small: "n < 10 \<Longrightarrow> digits n = [digit_char n]"
  by (subst digits.simps) simp

lemma digits_step: "\<not> n < 10 \<Longrightarrow> digits n = digits (n div 10) @ [digit_char (n mod 10)]"
  by (subst digits.simps) simp

section \<open>Prefixes and trimming\<close>

lemma startsWith_iff: "startsWith s p \<longleftrightarrow> take (length p) s = p"
proof (cases s)
  case Nil
  then show ?thesis by (auto simp: startsWith_def)
next
  case (Cons c cs)
  then show ?thesis by (auto simp: startsWith_def Let_def)
qed

lemma Itoa_not_quoted: "\<not> startsWith (Itoa i) [CHR 0x22]"
proof -
  have "hd (Itoa i) \<noteq> CHR 0x22"
    using isDigit_not_sign [OF hd_digits [of "nat i"]] by (simp add: Itoa_def)
  moreover have "Itoa i \<noteq> []" by (simp add: Itoa_def digits_nonempty)
  ultimately show ?thesis by (cases "Itoa i") (simp_all add: startsWith_iff)
qed

lemma dropWhile_hd: "s = [] \<or> \<not> P (hd s) \<Longrightarrow> dropWhile P s = s"
  by (cases s) auto

lemma Trim_quoted:
  assumes "s = [] \<or> (hd s \<noteq> CHR 0x22 \<and> last s \<noteq> CHR 0x22)"
  shows "strings_Trim ([CHR 0x22] @ s @ [CHR 0x22]) [CHR 0x22] = s"
proof (cases s rule: rev_cases)
  case Nil
  then show ?thesis by (simp add: strings_Trim_def strings_TrimLeft_def strings_TrimRight_def)
next
  case (snoc ys y)
  with assms have y: "y \<noteq> CHR 0x22" and h: "hd s \<noteq> CHR 0x22" by auto
  have ne: "s \<noteq> []" using snoc by simp
  have "hd (s @ [CHR 0x22]) = hd s" using ne by (rule hd_append2)
  with h have "hd (s @ [CHR 0x22]) \<noteq> CHR 0x22" by simp
  then have l: "dropWhile (\<lambda>c. c = CHR 0x22) (s @ [CHR 0x22]) = s @ [CHR 0x22]"
    by (simp add: dropWhile_hd)
  have r: "rev (dropWhile (\<lambda>c. c = CHR 0x22) (rev (s @ [CHR 0x22]))) = s"
    using y snoc by simp
  show ?thesis
    by (simp add: strings_Trim_def strings_TrimLeft_def strings_TrimRight_def l r
        del: rev_append)
qed

section \<open>The command formatter\<close>


text \<open>
  Claim C3, as amended.  \<open>quote\<close> wraps a string in double quotes, except the string
  \<open>?\<close>, which it returns as it is; it renders an \<open>int\<close> or \<open>int64\<close> in decimal; on a
  value of any other type it panics with the message
  \<open>Unsupported argument type:\<close> and the name of the type.  It never hands an error
  back to its caller.
\<close>

theorem quote_cases:
  "(case v of
      IString s \<Rightarrow> quote v = Inr (if s = ''?'' then s else [CHR 0x22] @ s @ [CHR 0x22])
    | IInt n \<Rightarrow> quote v = Inr (Itoa n)
    | IInt64 n \<Rightarrow> quote v = Inr (Itoa n)
    | IOther t \<Rightarrow> quote v = Inl (Panic (''Unsupported argument type: '' @ t)))
   \<and> \<not> reported (quote v) \<and> (aborted (quote v) \<longleftrightarrow> \<not> supported v)"
  by (cases v) simp_all

theorem quote_cases_witness:
  \<open>quote (IString ''?'') = Inr ''?'' \<and> quote (IString ''hi'') = Inr ''"hi"''
   \<and> quote (IInt 42) = Inr ''42''
   \<and> quote (IOther ''float64'') = Inl (Panic ''Unsupported argument type: float64'')\<close>
  using quote_cases [of "IString ''?''"] quote_cases [of "IString ''hi''"]
    quote_cases [of "IInt 42"] quote_cases [of "IOther ''float64''"]
  by (simp add: Itoa_def digits_step digits_small digit_char_def)

text \<open>
  Claim C3 as stated fails: on an argument of another type, here a \<open>float64\<close>, the
  call is aborted by a panic and no error is reported.
\<close>

theorem quote_unsupported_counterexample:
  "aborted (quote (IOther ''float64'')) \<and> \<not> reported (quote (IOther ''float64''))"
  by simp



text \<open>
  Claim C10.  For a string \<open>s\<close> that neither begins nor ends with a double quote,
  unquoting the quoted form gives back the string \<open>s\<close> (also for \<open>?\<close> and for strings
  of digits); for an integer \<open>n\<close> of type \<open>int\<close> or \<open>int64\<close>, unquoting the quoted form
  gives back the integer \<open>n\<close>.
\<close>

theorem unquote_quote:
  "(s = [] \<or> (hd s \<noteq> CHR 0x22 \<and> last s \<noteq> CHR 0x22)
      \<longrightarrow> (\<exists>q. quote (IString s) = Inr q \<and> unquote q = IString s))
   \<and> (in_int_range n
      \<longrightarrow> (\<exists>q. quote (IInt n) = Inr q \<and> unquote q = IInt n)
        \<and> (\<exists>q. quote (IInt64 n) = Inr q \<and> unquote q = IInt n))"
proof (intro conjI impI)
  assume a: "s = [] \<or> (hd s \<noteq> CHR 0x22 \<and> last s \<noteq> CHR 0x22)"
  show "\<exists>q. quote (IString s) = Inr q \<and> unquote q = IString s"
  proof (cases "s = ''?''")
    case True
    then show ?thesis by (simp add: unquote_def startsWith_iff Atoi_def isDigit_def)
  next
    case False
    then show ?thesis using Trim_quoted [OF a]
      by (simp add: unquote_def startsWith_iff)
  qed
next
  assume r: "in_int_range n"
  have "unquote (Itoa n) = IInt n"
    using Atoi_Itoa [OF r] Itoa_not_quoted [of n] by (simp add: unquote_def)
  then show "\<exists>q. quote (IInt n) = Inr q \<and> unquote q = IInt n"
    and "\<exists>q. quote (IInt64 n) = Inr q \<and> unquote q = IInt n"
    by simp_all
qed

theorem unquote_quote_witness:
  \<open>unquote ''"hi"'' = IString ''hi'' \<and> unquote ''42'' = IInt 42\<close>
proof -
  have s: "''hi'' = [] \<or> (hd ''hi'' \<noteq> CHR 0x22 \<and> last ''hi'' \<noteq> CHR 0x22)" by simp
  have n: "in_int_range 42" by (simp add: in_int_range_def)
  have q: "Itoa 42 = ''42''"
    by (simp add: Itoa_def digits_step digits_small digit_char_def)
  from unquote_quote [of "''hi''" 42] s n q show ?thesis by simp
qed


section \<open>The character codec\<close>

text \<open>
  Claim C8.  For every character of the GSM 03.38 encode table that is not one of the
  escaped characters, decoding the encoding of the one-character string gives the
  string back.
\<close>

theorem gsm_roundtrip:
  assumes "c \<in> fst ` set gsm0338Encode" and "c \<notin> set escaped"
  shows "gsmDecode (gsmEncode [c]) = [c]"
proof -
  from assms have "c \<in> {0x40, 0xA3, 0x24, 0xA5, 0xE8, 0xE9, 0xF9, 0xEC, 0xF2, 0xC7, 0x0D, 0xD8,
      0xF8, 0x0A, 0xC5, 0xE5, 0x394, 0x5F, 0x3A6, 0x393, 0x39B, 0x3A9, 0x3A0, 0x3A8, 0x3A3,
      0x398, 0x39E, 0xC6, 0xE6, 0xC9, 0xA4, 0x25, 0xA1, 0xC4, 0xD6, 0xD1, 0xDC, 0xA7, 0xE4,
      0xF6, 0xF1, 0xFC, 0xE0}"
    by (simp add: gsm0338Encode_def escaped_def)
  then show ?thesis
    by (elim insertE emptyE) (simp_all add: gsm0338Encode_def gsm0338Decode_def)
qed

theorem gsm_roundtrip_witness:
  "0x40 \<in> fst ` set gsm0338Encode \<and> 0x40 \<notin> set escaped \<and> gsmDecode (gsmEncode [0x40]) = [0x40]"
proof -
  have a: "0x40 \<in> fst ` set gsm0338Encode" by (simp add: gsm0338Encode_def)
  have b: "0x40 \<notin> set escaped" by (simp add: escaped_def)
  from gsm_roundtrip [OF a b] a b show ?thesis by simp
qed

text \<open>The escaped characters do not come back: the decode table has no escape entries.\<close>

lemma gsm_escaped_asymmetry: "c \<in> set escaped \<Longrightarrow> gsmDecode (gsmEncode [c]) \<noteq> [c]"
proof -
  assume "c \<in> set escaped"
  then have "c \<in> {0x20AC, 0x5B, 0x5C, 0x5D, 0x5E, 0x7B, 0x7C, 0x7D, 0x7E}"
    by (simp add: escaped_def)
  then show ?thesis
    by (elim insertE emptyE) (simp_all add: gsm0338Encode_def gsm0338Decode_def)
qed










lemma lower_hex_not_space: "lower_hex c \<Longrightarrow> c \<noteq> CHR '' ''"
  by (auto simp: lower_hex_def)




















end
